theory Spec2Isabelle
  imports Complex_Main
begin

section \<open>Python values seen by the handlers\<close>

text \<open>
  A Python \<open>str\<close> is a sequence of Unicode code points: slicing, \<open>strip\<close> and
  \<open>len\<close> count code points, not bytes. Source literals are ASCII apart from the em dash
  of the quote template (U+2014) and the degree sign of the weather template (U+00B0).
\<close>

type_synonym pystr = "nat list"

definition lit :: "string \<Rightarrow> pystr" where
  "lit s = map of_char s"

text \<open>
  What \<open>r.json()\<close> returns. The number type is left open: no handler computes with a
  number, numbers are only rendered into replies. A parsed dict is an association list in
  insertion order (its keys are distinct; lookup takes the first binding).
\<close>

datatype 'n json =
    JNull
  | JBool bool
  | JNum 'n
  | JStr pystr
  | JArr "'n json list"
  | JObj "(pystr \<times> 'n json) list"

text \<open>
  The exceptions that can be raised while the program runs; all are subclasses of
  \<open>Exception\<close>. \<open>ValidationError\<close> is what the bot library raises for a value that does
  not fit a field of an outgoing call, \<open>TokenValidationError\<close> what it raises for a
  malformed bot token.
\<close>

datatype pyexn =
    RequestException
  | JSONDecodeError
  | AttributeError
  | KeyError
  | IndexError
  | TypeError
  | ValidationError
  | TokenValidationError

definition bind_exn :: "pyexn + 'a \<Rightarrow> ('a \<Rightarrow> pyexn + 'b) \<Rightarrow> pyexn + 'b" where
  "bind_exn m f = (case m of Inl e \<Rightarrow> Inl e | Inr x \<Rightarrow> f x)"

text \<open>
  \<open>try: body  except Exception: handler\<close>. What the \<open>except\<close> clause raises is not
  caught again.
\<close>

definition try_except :: "pyexn + 'a \<Rightarrow> pyexn + 'a \<Rightarrow> pyexn + 'a" where
  "try_except body handler = (case body of Inl e \<Rightarrow> handler | Inr x \<Rightarrow> Inr x)"

text \<open>
  The parts of the Python runtime and of the libraries that the model does not spell
  out: the text that \<open>str()\<close> and f-string interpolation give for numbers, lists and
  dicts; the Unicode case mappings of strings that are not pure ASCII; what the bot
  library makes of a number or a bool given where an outgoing call wants a string; and
  its check of the form of a bot token.
\<close>

record 'n py_runtime =
  py_repr :: "'n json \<Rightarrow> pystr"
  unicode_lower :: "pystr \<Rightarrow> pystr"
  unicode_capitalize :: "pystr \<Rightarrow> pystr"
  scalar_text :: "'n json \<Rightarrow> pyexn + pystr"
  token_valid :: "pystr \<Rightarrow> bool"

text \<open>\<open>str(v)\<close>, which is also what \<open>f"{v}"\<close> inserts.\<close>

definition py_str :: "'n py_runtime \<Rightarrow> 'n json \<Rightarrow> pystr" where
  "py_str rt v =
     (case v of
        JStr s \<Rightarrow> s
      | JNull \<Rightarrow> lit ''None''
      | JBool b \<Rightarrow> (if b then lit ''True'' else lit ''False'')
      | _ \<Rightarrow> py_repr rt v)"

text \<open>\<open>f"{k}"\<close> for a value of \<open>os.getenv\<close>, which is a string or \<open>None\<close>.\<close>

definition str_opt :: "pystr option \<Rightarrow> pystr" where
  "str_opt k = (case k of None \<Rightarrow> lit ''None'' | Some s \<Rightarrow> s)"

text \<open>Truth value of a string or \<open>None\<close>: \<open>if args\<close>, \<open>if not city\<close>.\<close>

definition truthy :: "pystr option \<Rightarrow> bool" where
  "truthy k = (case k of None \<Rightarrow> False | Some s \<Rightarrow> s \<noteq> [])"

text \<open>\<open>d.get(k, default)\<close>: only a dict has the method.\<close>

definition py_get :: "'n json \<Rightarrow> pystr \<Rightarrow> 'n json \<Rightarrow> pyexn + 'n json" where
  "py_get d k dflt =
     (case d of
        JObj kvs \<Rightarrow> Inr (case map_of kvs k of None \<Rightarrow> dflt | Some v \<Rightarrow> v)
      | _ \<Rightarrow> Inl AttributeError)"

text \<open>\<open>d[k]\<close> with a string key.\<close>

definition py_item :: "'n json \<Rightarrow> pystr \<Rightarrow> pyexn + 'n json" where
  "py_item d k =
     (case d of
        JObj kvs \<Rightarrow> (case map_of kvs k of None \<Rightarrow> Inl KeyError | Some v \<Rightarrow> Inr v)
      | _ \<Rightarrow> Inl TypeError)"

text \<open>\<open>d[0]\<close>: the keys of a parsed dict are strings, so \<open>0\<close> is never one of them.\<close>

definition py_first :: "'n json \<Rightarrow> pyexn + 'n json" where
  "py_first d =
     (case d of
        JArr xs \<Rightarrow> (case xs of [] \<Rightarrow> Inl IndexError | x # _ \<Rightarrow> Inr x)
      | JStr s \<Rightarrow> (case s of [] \<Rightarrow> Inl IndexError | c # _ \<Rightarrow> Inr (JStr [c]))
      | JObj kvs \<Rightarrow> Inl KeyError
      | _ \<Rightarrow> Inl TypeError)"

text \<open>\<open>v[:n]\<close>: strings and lists can be sliced.\<close>

definition py_slice_to :: "nat \<Rightarrow> 'n json \<Rightarrow> pyexn + 'n json" where
  "py_slice_to n v =
     (case v of
        JStr s \<Rightarrow> Inr (JStr (take n s))
      | JArr xs \<Rightarrow> Inr (JArr (take n xs))
      | _ \<Rightarrow> Inl TypeError)"

section \<open>The outside world\<close>

datatype 'n request =
    Get pystr
  | Post pystr "(pystr \<times> pystr) list" "'n json" nat

text \<open>
  What one call of \<open>requests.get\<close> or \<open>requests.post\<close> does: it raises (no connection,
  timeout), or it returns a response with a status code and a body; \<open>r.json()\<close> raises
  when the body is not JSON (\<open>None\<close> here).
\<close>

datatype 'n response =
    Raises
  | Response int "'n json option"

definition requests_call :: "('n request \<Rightarrow> 'n response) \<Rightarrow> 'n request \<Rightarrow> pyexn + (int \<times> 'n json option)" where
  "requests_call remote req =
     (case remote req of Raises \<Rightarrow> Inl RequestException | Response st b \<Rightarrow> Inr (st, b))"

definition r_json :: "int \<times> 'n json option \<Rightarrow> pyexn + 'n json" where
  "r_json r = (case snd r of None \<Rightarrow> Inl JSONDecodeError | Some d \<Rightarrow> Inr d)"

text \<open>
  What a handler sends back through \<open>message\<close>: a text, a text with the reply keyboard,
  or a photo (its URL and its caption, \<open>JNull\<close> for none).
\<close>

datatype 'n reply =
    Reply "'n json"
  | ReplyKeyboard "'n json" "pystr list"
  | ReplyPhoto "'n json" "'n json"

text \<open>
  One run of a handler: the outbound HTTP calls it made, and what it sent, or the
  exception that left it.
\<close>

record 'n outcome =
  calls :: "'n request list"
  sent :: "pyexn + 'n reply"

text \<open>
  An incoming command message, with what the world answers while its handler runs:
  the command name, the raw argument text after it, the sender's first name
  (\<open>message.from_user\<close> may be \<open>None\<close>), the behaviour of the remote services, and the
  formatted server time.
\<close>

record 'n update =
  command :: pystr
  argument :: pystr
  from_user :: "pystr option"
  http :: "'n request \<Rightarrow> 'n response"
  now_text :: pystr

text \<open>
  \<open>message.get_args()\<close>. \<open>requirements.txt\<close> pins \<open>aiogram==3.0.0b7\<close>, and the imports
  (\<open>aiogram.filters\<close>, \<open>Router\<close>, \<open>ReplyKeyboardBuilder\<close>) are those of version 3, whose
  \<open>Message\<close> has no \<open>get_args\<close>: the attribute lookup raises \<open>AttributeError\<close>,
  whatever the message.
\<close>

definition message_get_args :: "'n update \<Rightarrow> pyexn + pystr option" where
  "message_get_args m = Inl AttributeError"

text \<open>
  \<open>message.reply(s)\<close> for a Python string \<open>s\<close> (a literal or an f-string); Telegram is
  taken to deliver it.
\<close>

definition reply_str :: "pystr \<Rightarrow> pyexn + 'n reply" where
  "reply_str s = Inr (Reply (JStr s))"

text \<open>
  A value taken from a response and given where the outgoing call wants a string: a
  string fits, \<open>None\<close>, a list and a dict are refused, a number or a bool is the
  library's business.
\<close>

definition str_field :: "'n py_runtime \<Rightarrow> 'n json \<Rightarrow> pyexn + pystr" where
  "str_field rt v =
     (case v of
        JStr s \<Rightarrow> Inr s
      | JNum n \<Rightarrow> scalar_text rt v
      | JBool b \<Rightarrow> scalar_text rt v
      | _ \<Rightarrow> Inl ValidationError)"

text \<open>\<open>message.reply(v)\<close> for a value \<open>v\<close> taken from a response.\<close>

definition message_reply :: "'n py_runtime \<Rightarrow> 'n json \<Rightarrow> pyexn + 'n reply" where
  "message_reply rt v = bind_exn (str_field rt v) reply_str"

text \<open>\<open>message.reply_photo(photo=p, caption=c)\<close>; the caption may be \<open>None\<close>.\<close>

definition message_reply_photo :: "'n py_runtime \<Rightarrow> 'n json \<Rightarrow> 'n json \<Rightarrow> pyexn + 'n reply" where
  "message_reply_photo rt p c =
     bind_exn (str_field rt p) (\<lambda>photo.
       (case c of
          JNull \<Rightarrow> Inr (ReplyPhoto (JStr photo) JNull)
        | _ \<Rightarrow> bind_exn (str_field rt c) (\<lambda>caption. Inr (ReplyPhoto (JStr photo) (JStr caption)))))"

section \<open>commands/fun.py\<close>

definition joke_url :: pystr where
  "joke_url = lit ''https://v2.jokeapi.dev/joke/Any?type=single''"

definition cmd_joke :: "'n py_runtime \<Rightarrow> 'n update \<Rightarrow> 'n outcome" where
  "cmd_joke rt message =
     \<lparr>calls = [Get joke_url],
      sent = try_except
        (bind_exn (requests_call (http message) (Get joke_url)) (\<lambda>r.
         bind_exn (r_json r) (\<lambda>data.
         bind_exn (py_get data (lit ''joke'') (JStr (lit ''Couldn't fetch joke''))) (\<lambda>v.
         message_reply rt v))))
        (reply_str (lit ''Joke API error''))\<rparr>"

definition quote_url :: pystr where
  "quote_url = lit ''https://zenquotes.io/api/random''"

definition cmd_quote :: "'n py_runtime \<Rightarrow> 'n update \<Rightarrow> 'n outcome" where
  "cmd_quote rt message =
     \<lparr>calls = [Get quote_url],
      sent = try_except
        (bind_exn (requests_call (http message) (Get quote_url)) (\<lambda>r.
         bind_exn (r_json r) (\<lambda>body.
         bind_exn (py_first body) (\<lambda>data.
         bind_exn (py_get data (lit ''q'') JNull) (\<lambda>q.
         bind_exn (py_get data (lit ''a'') JNull) (\<lambda>a.
         reply_str ([34] @ py_str rt q @ [34] @ lit '' '' @ [8212] @ lit '' '' @ py_str rt a)))))))
        (reply_str (lit ''Quote API error''))\<rparr>"

definition meme_url :: pystr where
  "meme_url = lit ''https://meme-api.herokuapp.com/gimme''"

definition cmd_meme :: "'n py_runtime \<Rightarrow> 'n update \<Rightarrow> 'n outcome" where
  "cmd_meme rt message =
     \<lparr>calls = [Get meme_url],
      sent = try_except
        (bind_exn (requests_call (http message) (Get meme_url)) (\<lambda>r.
         bind_exn (r_json r) (\<lambda>data.
         bind_exn (py_item data (lit ''url'')) (\<lambda>url.
         bind_exn (py_get data (lit ''title'') (JStr [])) (\<lambda>title.
         message_reply_photo rt url title)))))
        (reply_str (lit ''No meme for now''))\<rparr>"

section \<open>String methods used by commands/utilities.py\<close>

text \<open>The code points that \<open>str.strip()\<close> removes (those with \<open>str.isspace()\<close>).\<close>

definition is_py_space :: "nat \<Rightarrow> bool" where
  "is_py_space c \<longleftrightarrow>
     (9 \<le> c \<and> c \<le> 13) \<or> (28 \<le> c \<and> c \<le> 32) \<or> c = 133 \<or> c = 160 \<or> c = 5760 \<or>
     (8192 \<le> c \<and> c \<le> 8202) \<or> c = 8232 \<or> c = 8233 \<or> c = 8239 \<or> c = 8287 \<or> c = 12288"

definition py_strip :: "pystr \<Rightarrow> pystr" where
  "py_strip s = rev (dropWhile is_py_space (rev (dropWhile is_py_space s)))"

definition is_ascii :: "pystr \<Rightarrow> bool" where
  "is_ascii s = list_all (\<lambda>c. c < 128) s"

definition ascii_lower :: "nat \<Rightarrow> nat" where
  "ascii_lower c = (if 65 \<le> c \<and> c \<le> 90 then c + 32 else c)"

definition ascii_upper :: "nat \<Rightarrow> nat" where
  "ascii_upper c = (if 97 \<le> c \<and> c \<le> 122 then c - 32 else c)"

text \<open>\<open>s.lower()\<close>: spelled out on ASCII text, the runtime's Unicode mapping otherwise.\<close>

definition py_lower :: "'n py_runtime \<Rightarrow> pystr \<Rightarrow> pystr" where
  "py_lower rt s = (if is_ascii s then map ascii_lower s else unicode_lower rt s)"

text \<open>\<open>s.capitalize()\<close>: first character upper case, the rest lower case.\<close>

definition py_capitalize :: "'n py_runtime \<Rightarrow> pystr \<Rightarrow> pystr" where
  "py_capitalize rt s =
     (if is_ascii s
      then (case s of [] \<Rightarrow> [] | c # cs \<Rightarrow> ascii_upper c # map ascii_lower cs)
      else unicode_capitalize rt s)"

section \<open>commands/utilities.py\<close>

definition weather_url :: "pystr option \<Rightarrow> pystr option \<Rightarrow> pystr" where
  "weather_url city key =
     lit ''https://api.openweathermap.org/data/2.5/weather?q='' @ str_opt city @
     lit ''&appid='' @ str_opt key @ lit ''&units=metric''"

text \<open>
  \<open>cmd_weather\<close> from its second statement on, for a value \<open>args\<close> of
  \<open>message.get_args()\<close>. \<open>OPENWEATHER_KEY\<close> is the module-level
  \<open>os.getenv('OPENWEATHER_API_KEY')\<close>.
\<close>

definition cmd_weather_body ::
  "'n py_runtime \<Rightarrow> pystr option \<Rightarrow> pystr option \<Rightarrow> ('n request \<Rightarrow> 'n response) \<Rightarrow> 'n outcome" where
  "cmd_weather_body rt OPENWEATHER_KEY args remote =
     (let city = (case args of None \<Rightarrow> None
                  | Some a \<Rightarrow> if a = [] then None else Some (py_strip a))
      in if \<not> truthy city
         then \<lparr>calls = [], sent = reply_str (lit ''Usage: /weather city_name'')\<rparr>
         else
           \<lparr>calls = [Get (weather_url city OPENWEATHER_KEY)],
            sent = try_except
              (bind_exn (requests_call remote (Get (weather_url city OPENWEATHER_KEY))) (\<lambda>r.
               if fst r \<noteq> 200
               then reply_str (lit ''Weather not found or API key missing'')
               else
                 bind_exn (r_json r) (\<lambda>data.
                 bind_exn (py_item data (lit ''weather'')) (\<lambda>ws.
                 bind_exn (py_first ws) (\<lambda>w.
                 bind_exn (py_item w (lit ''description'')) (\<lambda>desc.
                 bind_exn (py_item data (lit ''main'')) (\<lambda>m.
                 bind_exn (py_item m (lit ''temp'')) (\<lambda>temp.
                 reply_str (lit ''Weather in '' @ str_opt city @ lit '': '' @
                        py_str rt desc @ lit '', '' @ py_str rt temp @ [176] @ lit ''C'')))))))))
              (reply_str (lit ''Weather API error''))\<rparr>)"

text \<open>
  The handler: \<open>args = message.get_args()\<close> is its first statement and stands outside
  the \<open>try\<close>, so what the call raises leaves the handler.
\<close>

definition cmd_weather :: "'n py_runtime \<Rightarrow> pystr option \<Rightarrow> 'n update \<Rightarrow> 'n outcome" where
  "cmd_weather rt OPENWEATHER_KEY message =
     (case message_get_args message of
        Inl e \<Rightarrow> \<lparr>calls = [], sent = Inl e\<rparr>
      | Inr args \<Rightarrow> cmd_weather_body rt OPENWEATHER_KEY args (http message))"

definition crypto_url :: "pystr \<Rightarrow> pystr" where
  "crypto_url coin =
     lit ''https://api.coingecko.com/api/v3/simple/price?ids='' @ coin @ lit ''&vs_currencies=usd''"

text \<open>\<open>cmd_crypto\<close> from its second statement on.\<close>

definition cmd_crypto_body ::
  "'n py_runtime \<Rightarrow> pystr option \<Rightarrow> ('n request \<Rightarrow> 'n response) \<Rightarrow> 'n outcome" where
  "cmd_crypto_body rt args remote =
     (let coin = (case args of None \<Rightarrow> lit ''bitcoin''
                  | Some a \<Rightarrow> if a = [] then lit ''bitcoin'' else py_lower rt (py_strip a))
      in \<lparr>calls = [Get (crypto_url coin)],
          sent = try_except
            (bind_exn (requests_call remote (Get (crypto_url coin))) (\<lambda>r.
             bind_exn (r_json r) (\<lambda>data.
             bind_exn (py_get data coin (JObj [])) (\<lambda>entry.
             bind_exn (py_get entry (lit ''usd'') JNull) (\<lambda>price.
             (case price of
                JNull \<Rightarrow> reply_str (lit ''Coin not found'')
              | _ \<Rightarrow> reply_str (py_capitalize rt coin @ lit '' price: $'' @ py_str rt price)))))))
            (reply_str (lit ''CoinGecko API error''))\<rparr>)"

definition cmd_crypto :: "'n py_runtime \<Rightarrow> 'n update \<Rightarrow> 'n outcome" where
  "cmd_crypto rt message =
     (case message_get_args message of
        Inl e \<Rightarrow> \<lparr>calls = [], sent = Inl e\<rparr>
      | Inr args \<Rightarrow> cmd_crypto_body rt args (http message))"

text \<open>\<open>now_text\<close> is \<open>datetime.datetime.now().strftime('%Y-%m-%d %H:%M:%S')\<close>.\<close>

definition cmd_time :: "'n update \<Rightarrow> 'n outcome" where
  "cmd_time message =
     \<lparr>calls = [], sent = reply_str (lit ''Server time: '' @ now_text message)\<rparr>"

section \<open>commands/ai.py\<close>

definition ask_url :: pystr where
  "ask_url = lit ''https://api-inference.huggingface.co/models/gpt2''"

definition ask_request :: "pystr option \<Rightarrow> pystr option \<Rightarrow> 'n request" where
  "ask_request key prompt =
     Post ask_url
       [(lit ''Authorization'', lit ''Bearer '' @ str_opt key),
        (lit ''Content-Type'', lit ''application/json'')]
       (JObj [(lit ''inputs'', JStr (str_opt prompt))])
       20"

text \<open>
  \<open>cmd_ask\<close> from its second statement on, for a value \<open>prompt\<close> of
  \<open>message.get_args()\<close>. \<open>HUGGINGFACE_KEY\<close> is the module-level
  \<open>os.getenv('HUGGINGFACE_API_KEY')\<close>.
\<close>

definition cmd_ask_body ::
  "'n py_runtime \<Rightarrow> pystr option \<Rightarrow> pystr option \<Rightarrow> ('n request \<Rightarrow> 'n response) \<Rightarrow> 'n outcome" where
  "cmd_ask_body rt HUGGINGFACE_KEY prompt remote =
     (if \<not> truthy prompt
      then \<lparr>calls = [], sent = reply_str (lit ''Usage: /ask your question'')\<rparr>
      else if \<not> truthy HUGGINGFACE_KEY
      then \<lparr>calls = [],
            sent = reply_str (lit ''Sorry, no external AI key configured. You asked: '' @
                     str_opt prompt)\<rparr>
      else
        \<lparr>calls = [ask_request HUGGINGFACE_KEY prompt],
         sent = try_except
           (bind_exn (requests_call remote (ask_request HUGGINGFACE_KEY prompt)) (\<lambda>r.
            bind_exn (r_json r) (\<lambda>data.
            bind_exn
              (case data of
                 JArr (x # xs) \<Rightarrow> py_get x (lit ''generated_text'') (JStr (py_str rt data))
               | _ \<Rightarrow> py_get data (lit ''generated_text'') (JStr (py_str rt data))) (\<lambda>text.
            bind_exn (py_slice_to 3000 text) (\<lambda>t.
            message_reply rt t)))))
           (reply_str (lit ''AI API error or timeout''))\<rparr>)"

definition cmd_ask :: "'n py_runtime \<Rightarrow> pystr option \<Rightarrow> 'n update \<Rightarrow> 'n outcome" where
  "cmd_ask rt HUGGINGFACE_KEY message =
     (case message_get_args message of
        Inl e \<Rightarrow> \<lparr>calls = [], sent = Inl e\<rparr>
      | Inr prompt \<Rightarrow> cmd_ask_body rt HUGGINGFACE_KEY prompt (http message))"

section \<open>main.py\<close>

text \<open>The reply keyboard built at module level: three buttons.\<close>

definition kb :: "pystr list" where
  "kb = [lit ''/ask'', lit ''/quote'', lit ''/joke'']"

definition cmd_start :: "'n update \<Rightarrow> 'n outcome" where
  "cmd_start message =
     \<lparr>calls = [],
      sent = (case from_user message of
                None \<Rightarrow> Inl AttributeError
              | Some first_name \<Rightarrow>
                  Inr (ReplyKeyboard
                    (JStr (lit ''Hey '' @ first_name @ lit ''! I'm alive. Type /help to see commands.''))
                    kb))\<rparr>"

definition help_text :: pystr where
  "help_text =
     lit ''/start - Start bot'' @ [10] @
     lit ''/help - This help'' @ [10] @
     lit ''/ask <text> - Ask AI (local HF or fallback)'' @ [10] @
     lit ''/quote - Random inspirational quote'' @ [10] @
     lit ''/joke - Random joke'' @ [10] @
     lit ''/weather <city> - Weather info (OpenWeather)'' @ [10] @
     lit ''/crypto <id> - Crypto price (CoinGecko)'' @ [10] @
     lit ''/todo, /notes - Personal todo & notes (local json)'' @ [10]"

definition cmd_help :: "'n outcome" where
  "cmd_help = \<lparr>calls = [], sent = reply_str help_text\<rparr>"

text \<open>
  The dispatcher after \<open>fun.register(dp)\<close>, \<open>utilities.register(dp)\<close> and
  \<open>ai.register(dp)\<close>: the handlers in the order of their registration, each under the
  name of its \<open>Command\<close> filter. \<open>env\<close> is the process environment after
  \<open>load_dotenv()\<close>.
\<close>

definition dp :: "'n py_runtime \<Rightarrow> (pystr \<Rightarrow> pystr option) \<Rightarrow> (pystr \<times> ('n update \<Rightarrow> 'n outcome)) list" where
  "dp rt env =
     [(lit ''start'', cmd_start),
      (lit ''help'', \<lambda>message. cmd_help),
      (lit ''joke'', cmd_joke rt),
      (lit ''quote'', cmd_quote rt),
      (lit ''meme'', cmd_meme rt),
      (lit ''weather'', cmd_weather rt (env (lit ''OPENWEATHER_API_KEY''))),
      (lit ''crypto'', cmd_crypto rt),
      (lit ''time'', cmd_time),
      (lit ''ask'', cmd_ask rt (env (lit ''HUGGINGFACE_API_KEY'')))]"

text \<open>One incoming message: the first handler whose command matches runs; none, no reply.\<close>

definition dispatch :: "'n py_runtime \<Rightarrow> (pystr \<Rightarrow> pystr option) \<Rightarrow> 'n update \<Rightarrow> 'n outcome option" where
  "dispatch rt env m = map_option (\<lambda>h. h m) (map_of (dp rt env) (command m))"

text \<open>
  The whole of \<open>main.py\<close> on a run that receives the messages \<open>updates\<close>. The module
  raises \<open>SystemExit\<close> with a message (\<open>Inl\<close>) when \<open>TELEGRAM_TOKEN\<close> is unset or
  empty, before anything else exists. \<open>Bot(token=...)\<close> raises on a token of the wrong
  form. Otherwise polling hands each message to the dispatcher, and an exception that
  leaves a handler stays in that message's outcome.
\<close>

definition main_py ::
  "'n py_runtime \<Rightarrow> (pystr \<Rightarrow> pystr option) \<Rightarrow> 'n update list \<Rightarrow>
     pystr + (pyexn + 'n outcome option list)" where
  "main_py rt env updates =
     (if \<not> truthy (env (lit ''TELEGRAM_TOKEN''))
      then Inl (lit ''Please set TELEGRAM_TOKEN in .env file'')
      else if \<not> token_valid rt (str_opt (env (lit ''TELEGRAM_TOKEN'')))
      then Inr (Inl TokenValidationError)
      else Inr (Inr (map (dispatch rt env) updates)))"

text \<open>The command names a text advertises: each run of letters that follows a slash.\<close>

definition is_letter :: "nat \<Rightarrow> bool" where
  "is_letter c \<longleftrightarrow> (97 \<le> c \<and> c \<le> 122) \<or> (65 \<le> c \<and> c \<le> 90)"

fun slash_words :: "pystr \<Rightarrow> pystr list" where
  "slash_words [] = []"
| "slash_words (c # cs) =
     (if c = 47 then takeWhile is_letter cs # slash_words cs else slash_words cs)"

section \<open>Vocabulary of the properties\<close>



text \<open>
  A runtime for the examples below; none of them renders a number, list or dict, or maps
  the case of non-ASCII text, unless it says so by giving \<open>py_repr\<close> itself.
\<close>

abbreviation (input) plain_runtime :: "int py_runtime" where
  "plain_runtime \<equiv>
     \<lparr>py_repr = (\<lambda>v. []), unicode_lower = (\<lambda>s. s), unicode_capitalize = (\<lambda>s. s),
      scalar_text = (\<lambda>v. Inl ValidationError), token_valid = (\<lambda>s. True)\<rparr>"

section \<open>Properties of the handlers\<close>

lemmas handler_simps = requests_call_def r_json_def py_get_def py_item_def py_first_def
  py_slice_to_def bind_exn_def try_except_def truthy_def str_opt_def reply_str_def
  message_reply_def message_reply_photo_def str_field_def


subsection \<open>The handlers that start with \<open>message.get_args()\<close>\<close>

text \<open>
  \<open>/weather\<close>, \<open>/crypto\<close> and \<open>/ask\<close> raise \<open>AttributeError\<close> on every message, before
  any remote call and before any reply.
\<close>

lemma weather_raises: "cmd_weather rt wk m = \<lparr>calls = [], sent = Inl AttributeError\<rparr>"
  by (simp add: cmd_weather_def message_get_args_def)

lemma crypto_raises: "cmd_crypto rt m = \<lparr>calls = [], sent = Inl AttributeError\<rparr>"
  by (simp add: cmd_crypto_def message_get_args_def)

lemma ask_raises: "cmd_ask rt hk m = \<lparr>calls = [], sent = Inl AttributeError\<rparr>"
  by (simp add: cmd_ask_def message_get_args_def)

lemma dispatch_weather:
  "command m = lit ''weather'' \<Longrightarrow>
     dispatch rt env m = Some \<lparr>calls = [], sent = Inl AttributeError\<rparr>"
  by (simp add: dispatch_def dp_def lit_def weather_raises)

lemma dispatch_crypto:
  "command m = lit ''crypto'' \<Longrightarrow>
     dispatch rt env m = Some \<lparr>calls = [], sent = Inl AttributeError\<rparr>"
  by (simp add: dispatch_def dp_def lit_def crypto_raises)

lemma dispatch_ask:
  "command m = lit ''ask'' \<Longrightarrow>
     dispatch rt env m = Some \<lparr>calls = [], sent = Inl AttributeError\<rparr>"
  by (simp add: dispatch_def dp_def lit_def ask_raises)

subsection \<open>What the rest of these handlers does with a value of \<open>get_args()\<close>\<close>

lemma body_usage_on_missing_argument:
  "\<not> truthy args \<Longrightarrow>
     cmd_weather_body rt wk args h =
       \<lparr>calls = [], sent = Inr (Reply (JStr (lit ''Usage: /weather city_name'')))\<rparr> \<and>
     cmd_ask_body rt hk args h =
       \<lparr>calls = [], sent = Inr (Reply (JStr (lit ''Usage: /ask your question'')))\<rparr>"
  by (auto simp: cmd_weather_body_def cmd_ask_body_def truthy_def reply_str_def split: option.splits)

lemma body_ask_without_key:
  "p \<noteq> [] \<Longrightarrow> \<not> truthy hk \<Longrightarrow>
     cmd_ask_body rt hk (Some p) h =
       \<lparr>calls = [],
        sent = Inr (Reply (JStr (lit ''Sorry, no external AI key configured. You asked: '' @ p)))\<rparr>"
  by (simp add: cmd_ask_body_def truthy_def str_opt_def reply_str_def)

lemma body_ask_truncated:
  assumes "p \<noteq> []" and "truthy hk"
    and "h (ask_request hk (Some p)) = Response st (Some body)"
    and "body = JObj kvs \<or> body = JArr (JObj kvs # rest)"
    and "map_of kvs (lit ''generated_text'') = Some (JStr g)"
  shows "cmd_ask_body rt hk (Some p) h =
           \<lparr>calls = [ask_request hk (Some p)], sent = Inr (Reply (JStr (take 3000 g)))\<rparr>"
  using assms by (auto simp: cmd_ask_body_def handler_simps)

lemma body_crypto_default:
  assumes "\<not> truthy args"
  shows "calls (cmd_crypto_body rt args h) =
           [Get (lit ''https://api.coingecko.com/api/v3/simple/price?ids=bitcoin&vs_currencies=usd'')] \<and>
         (h (Get (lit ''https://api.coingecko.com/api/v3/simple/price?ids=bitcoin&vs_currencies=usd'')) =
             Response st (Some (JObj kvs)) \<and>
          map_of kvs (lit ''bitcoin'') = Some (JObj e) \<and>
          map_of e (lit ''usd'') = Some price \<and> price \<noteq> JNull \<longrightarrow>
          sent (cmd_crypto_body rt args h) =
            Inr (Reply (JStr (lit ''Bitcoin price: $'' @ py_str rt price))))"
proof -
  have coin: "(case args of None \<Rightarrow> lit ''bitcoin''
                | Some a \<Rightarrow> if a = [] then lit ''bitcoin'' else py_lower rt (py_strip a)) = lit ''bitcoin''"
    using assms by (simp add: truthy_def split: option.splits)
  have url: "crypto_url (lit ''bitcoin'') =
      lit ''https://api.coingecko.com/api/v3/simple/price?ids=bitcoin&vs_currencies=usd''"
    by (simp add: crypto_url_def lit_def)
  have cap: "py_capitalize rt (lit ''bitcoin'') @ lit '' price: $'' = lit ''Bitcoin price: $''"
    by (simp add: py_capitalize_def is_ascii_def lit_def ascii_upper_def ascii_lower_def)
  show ?thesis
    unfolding cmd_crypto_body_def coin Let_def url
    by (auto simp: handler_simps cap split: json.splits)
qed


lemma body_weather_paris:
  assumes "py_repr rt (JNum t) = lit ''18.4''"
    and "h (Get (weather_url (Some (lit ''Paris'')) wk)) =
           Response 200 (Some (JObj
             [(lit ''weather'', JArr [JObj [(lit ''description'', JStr (lit ''clear sky''))]]),
              (lit ''main'', JObj [(lit ''temp'', JNum t)])]))"
  shows "cmd_weather_body rt wk (Some (lit ''Paris'')) h =
           \<lparr>calls = [Get (weather_url (Some (lit ''Paris'')) wk)],
            sent = Inr (Reply (JStr (lit ''Weather in Paris: clear sky, 18.4'' @ [176] @ lit ''C'')))\<rparr>"
  unfolding cmd_weather_body_def Let_def
  using assms by (simp add: handler_simps py_str_def lit_def py_strip_def is_py_space_def)

subsection \<open>Argument validation\<close>

text \<open>
  Claim C4 asks that \<open>/weather\<close> and \<open>/ask\<close> without an argument reply with their
  usage string and make no outbound call. They make no call, and they send nothing:
  \<open>message.get_args()\<close> raises and the exception leaves the handler. The statements that
  follow it in the source would send the usage strings.
\<close>

theorem usage_reply_not_sent:
  "dispatch rt env \<lparr>command = lit ''weather'', argument = [], from_user = u, http = h, now_text = t\<rparr> =
     Some \<lparr>calls = [], sent = Inl AttributeError\<rparr> \<and>
   dispatch rt env \<lparr>command = lit ''ask'', argument = [], from_user = u, http = h, now_text = t\<rparr> =
     Some \<lparr>calls = [], sent = Inl AttributeError\<rparr> \<and>
   cmd_weather_body rt wk (Some []) h =
     \<lparr>calls = [], sent = Inr (Reply (JStr (lit ''Usage: /weather city_name'')))\<rparr> \<and>
   cmd_ask_body rt hk (Some []) h =
     \<lparr>calls = [], sent = Inr (Reply (JStr (lit ''Usage: /ask your question'')))\<rparr>"
  using body_usage_on_missing_argument [of "Some []" rt wk h hk]
  by (simp add: dispatch_weather dispatch_ask truthy_def)

subsection \<open>\<open>/ask\<close>\<close>

text \<open>
  Claim C5 asks that \<open>/ask hello\<close> without a HuggingFace key reply
  \<open>Sorry, no external AI key configured. You asked: hello\<close> and make no outbound call.
  No call is made, and no reply either: \<open>message.get_args()\<close> raises first. The
  statements after it would send that reply.
\<close>

theorem ask_without_key_raises:
  "dispatch rt (\<lambda>k. None)
     \<lparr>command = lit ''ask'', argument = lit ''hello'', from_user = u, http = h, now_text = t\<rparr> =
     Some \<lparr>calls = [], sent = Inl AttributeError\<rparr> \<and>
   cmd_ask_body rt None (Some (lit ''hello'')) h =
     \<lparr>calls = [],
      sent = Inr (Reply (JStr (lit ''Sorry, no external AI key configured. You asked: hello'')))\<rparr>"
  using body_ask_without_key [of "lit ''hello''" None rt h]
  by (simp add: dispatch_ask truthy_def lit_def)

text \<open>
  Claim C6 asks that the reply to \<open>/ask\<close> be the first 3000 characters of the generated
  text. With a key and a remote service that would return 4000 characters, the handler
  raises at \<open>message.get_args()\<close>: no call, no reply. The statements after it would send
  the first 3000 characters.
\<close>

theorem ask_generated_text_not_sent:
  "dispatch rt (\<lambda>k. Some (lit ''hf_key''))
     \<lparr>command = lit ''ask'', argument = lit ''hello'', from_user = u,
      http = (\<lambda>r. Response 200 (Some (JArr [JObj [(lit ''generated_text'', JStr (replicate 4000 97))]]))),
      now_text = t\<rparr> =
     Some \<lparr>calls = [], sent = Inl AttributeError\<rparr> \<and>
   cmd_ask_body rt (Some (lit ''hf_key'')) (Some (lit ''hello''))
     (\<lambda>r. Response 200 (Some (JArr [JObj [(lit ''generated_text'', JStr (replicate 4000 97))]]))) =
     \<lparr>calls = [ask_request (Some (lit ''hf_key'')) (Some (lit ''hello''))],
      sent = Inr (Reply (JStr (replicate 3000 97)))\<rparr>"
  using body_ask_truncated [where p = "lit ''hello''" and hk = "Some (lit ''hf_key'')"
      and h = "\<lambda>r. Response 200 (Some (JArr [JObj [(lit ''generated_text'', JStr (replicate 4000 97))]]))"
      and st = 200 and body = "JArr [JObj [(lit ''generated_text'', JStr (replicate 4000 97))]]"
      and kvs = "[(lit ''generated_text'', JStr (replicate 4000 97))]" and rest = "[]"
      and g = "replicate 4000 97" and rt = rt]
  by (simp add: dispatch_ask truthy_def lit_def)

subsection \<open>\<open>/crypto\<close>\<close>

text \<open>
  Claim C7 asks that \<open>/crypto\<close> without an argument query the price of \<open>bitcoin\<close>. It
  queries nothing and sends nothing: \<open>message.get_args()\<close> raises. The statements after
  it would ask for the id \<open>bitcoin\<close>.
\<close>

theorem crypto_default_not_queried:
  "dispatch rt env \<lparr>command = lit ''crypto'', argument = [], from_user = u, http = h, now_text = t\<rparr> =
     Some \<lparr>calls = [], sent = Inl AttributeError\<rparr> \<and>
   calls (cmd_crypto_body rt (Some []) h) =
     [Get (lit ''https://api.coingecko.com/api/v3/simple/price?ids=bitcoin&vs_currencies=usd'')]"
  using body_crypto_default [of "Some []" rt h]
  by (simp add: dispatch_crypto truthy_def)


subsection \<open>\<open>/weather\<close>\<close>

text \<open>
  Claim C8 asks that \<open>/weather Paris\<close>, with a remote service answering status 200 and
  \<open>{weather: [{description: "clear sky"}], main: {temp: 18.4}}\<close>, reply
  \<open>Weather in Paris: clear sky, 18.4\<close> followed by the degree sign and \<open>C\<close>. The handler
  raises at \<open>message.get_args()\<close>: no call, no reply. The statements after it would send
  that reply (for a runtime that renders the temperature as \<open>18.4\<close>).
\<close>

theorem weather_paris_not_sent:
  "dispatch rt env
     \<lparr>command = lit ''weather'', argument = lit ''Paris'', from_user = u,
      http = (\<lambda>r. Response 200 (Some (JObj
        [(lit ''weather'', JArr [JObj [(lit ''description'', JStr (lit ''clear sky''))]]),
         (lit ''main'', JObj [(lit ''temp'', JNum (18.4::real))])]))),
      now_text = t\<rparr> =
     Some \<lparr>calls = [], sent = Inl AttributeError\<rparr> \<and>
   cmd_weather_body (rt\<lparr>py_repr := (\<lambda>v. lit ''18.4'')\<rparr>) (Some (lit ''ow_key'')) (Some (lit ''Paris''))
     (\<lambda>r. Response 200 (Some (JObj
        [(lit ''weather'', JArr [JObj [(lit ''description'', JStr (lit ''clear sky''))]]),
         (lit ''main'', JObj [(lit ''temp'', JNum (18.4::real))])]))) =
     \<lparr>calls = [Get (lit ''https://api.openweathermap.org/data/2.5/weather?q=Paris&appid=ow_key&units=metric'')],
      sent = Inr (Reply (JStr (lit ''Weather in Paris: clear sky, 18.4'' @ [176] @ lit ''C'')))\<rparr>"
  using body_weather_paris [where t = "18.4::real" and wk = "Some (lit ''ow_key'')"
      and rt = "rt\<lparr>py_repr := (\<lambda>v. lit ''18.4'')\<rparr>"
      and h = "\<lambda>r. Response 200 (Some (JObj
        [(lit ''weather'', JArr [JObj [(lit ''description'', JStr (lit ''clear sky''))]]),
         (lit ''main'', JObj [(lit ''temp'', JNum (18.4::real))])]))"]
  by (simp add: dispatch_weather weather_url_def str_opt_def lit_def)

subsection \<open>Start-up\<close>

text \<open>
  Claim C9. When \<open>TELEGRAM_TOKEN\<close> is unset or empty, the program ends with the message
  \<open>Please set TELEGRAM_TOKEN in .env file\<close>, whatever messages are waiting: no handler
  runs, there is no list of handler outcomes.
\<close>

theorem startup_without_token_exits:
  "\<not> truthy (env (lit ''TELEGRAM_TOKEN'')) \<Longrightarrow>
     main_py rt env updates = Inl (lit ''Please set TELEGRAM_TOKEN in .env file'') \<and>
     (\<forall>outs. main_py rt env updates \<noteq> Inr outs)"
  by (simp add: main_py_def)

theorem startup_without_token_exits_witness:
  "main_py plain_runtime (\<lambda>k. None)
     [\<lparr>command = lit ''help'', argument = [], from_user = Some (lit ''Ann''),
       http = (\<lambda>r. Raises), now_text = []\<rparr>] =
     Inl (lit ''Please set TELEGRAM_TOKEN in .env file'')"
  using startup_without_token_exits [where env = "\<lambda>k. None" and rt = plain_runtime
      and updates = "[\<lparr>command = lit ''help'', argument = [], from_user = Some (lit ''Ann''),
       http = (\<lambda>r. Raises), now_text = []\<rparr>]"]
  by (simp add: truthy_def)

text \<open>With a token of the right form the dispatcher runs, and every message goes through it.\<close>

lemma startup_with_token_polls:
  "truthy (env (lit ''TELEGRAM_TOKEN'')) \<Longrightarrow>
   token_valid rt (str_opt (env (lit ''TELEGRAM_TOKEN''))) \<Longrightarrow>
     main_py rt env updates = Inr (Inr (map (dispatch rt env) updates))"
  by (simp add: main_py_def)

lemma startup_with_malformed_token:
  "truthy (env (lit ''TELEGRAM_TOKEN'')) \<Longrightarrow>
   \<not> token_valid rt (str_opt (env (lit ''TELEGRAM_TOKEN''))) \<Longrightarrow>
     main_py rt env updates = Inr (Inl TokenValidationError)"
  by (simp add: main_py_def)

lemma help_is_dispatched:
  "command m = lit ''help'' \<Longrightarrow> dispatch rt env m = Some cmd_help"
  by (simp add: dispatch_def dp_def lit_def)

subsection \<open>\<open>/help\<close> and the registered commands\<close>

text \<open>
  Claim C2 asks that the \<open>/help\<close> reply list every registered command exactly once and
  no other. The reply is the fixed \<open>help_text\<close>, and it does not: \<open>meme\<close> and
  \<open>time\<close> are registered and not listed, \<open>todo\<close> and \<open>notes\<close> are listed and
  not registered.
\<close>

theorem help_text_differs_from_registered:
  "map fst (dp rt env) =
     map lit [''start'', ''help'', ''joke'', ''quote'', ''meme'', ''weather'', ''crypto'', ''time'', ''ask''] \<and>
   sent cmd_help = Inr (Reply (JStr help_text)) \<and>
   slash_words help_text =
     map lit [''start'', ''help'', ''ask'', ''quote'', ''joke'', ''weather'', ''crypto'', ''todo'', ''notes''] \<and>
   lit ''meme'' \<in> set (map fst (dp rt env)) \<and> lit ''meme'' \<notin> set (slash_words help_text) \<and>
   lit ''time'' \<in> set (map fst (dp rt env)) \<and> lit ''time'' \<notin> set (slash_words help_text) \<and>
   lit ''todo'' \<in> set (slash_words help_text) \<and> lit ''todo'' \<notin> set (map fst (dp rt env)) \<and>
   lit ''notes'' \<in> set (slash_words help_text) \<and> lit ''notes'' \<notin> set (map fst (dp rt env))"
proof -
  have reg: "map fst (dp rt env) =
     map lit [''start'', ''help'', ''joke'', ''quote'', ''meme'', ''weather'', ''crypto'', ''time'', ''ask'']"
    by (simp add: dp_def)
  have listed: "slash_words help_text =
     map lit [''start'', ''help'', ''ask'', ''quote'', ''joke'', ''weather'', ''crypto'', ''todo'', ''notes'']"
    by (simp add: help_text_def lit_def is_letter_def)
  show ?thesis
    unfolding reg listed by (simp add: cmd_help_def reply_str_def lit_def)
qed

subsection \<open>\<open>/joke\<close>, \<open>/quote\<close> and \<open>/meme\<close>, case by case\<close>










lemma joke_text:
  "http m (Get joke_url) = Response st (Some (JObj kvs)) \<Longrightarrow>
   map_of kvs (lit ''joke'') = Some (JStr s) \<Longrightarrow>
     sent (cmd_joke rt m) = Inr (Reply (JStr s))"
  by (simp add: cmd_joke_def handler_simps)


subsection \<open>A response without the field a handler reads\<close>

text \<open>
  Claim C1 asks that \<open>/joke\<close>, \<open>/quote\<close>, \<open>/meme\<close> and \<open>/ask\<close> answer a successful
  response that lacks a required field with their failure message, never with a reply
  formatted from \<open>None\<close>. \<open>/meme\<close> and \<open>/joke\<close> send a fixed text (\<open>meme_no_url\<close>,
  \<open>joke_no_field\<close>). \<open>/quote\<close> reads both fields with \<open>data.get\<close> and no default: on
  the body \<open>[{}]\<close> it sends the template filled with \<open>None\<close> twice. \<open>/ask\<close> sends
  nothing, since \<open>message.get_args()\<close> raises.
\<close>

theorem missing_field_formatted_as_none:
  "dispatch rt env
     \<lparr>command = lit ''quote'', argument = [], from_user = u,
      http = (\<lambda>r. Response 200 (Some (JArr [JObj []]))), now_text = t\<rparr> =
     Some \<lparr>calls = [Get quote_url],
           sent = Inr (Reply (JStr ([34] @ lit ''None'' @ [34] @ lit '' '' @ [8212] @ lit '' None'')))\<rparr> \<and>
   Reply (JStr ([34] @ lit ''None'' @ [34] @ lit '' '' @ [8212] @ lit '' None'')) \<noteq>
     Reply (JStr (lit ''Quote API error'')) \<and>
   dispatch rt env
     \<lparr>command = lit ''ask'', argument = lit ''hello'', from_user = u,
      http = (\<lambda>r. Response 200 (Some (JObj []))), now_text = t\<rparr> =
     Some \<lparr>calls = [], sent = Inl AttributeError\<rparr>"
  by (simp add: dispatch_ask)
    (simp add: dispatch_def dp_def cmd_quote_def handler_simps py_str_def lit_def)

subsection \<open>Every failure of the remote call\<close>




end
